theory Spec2Isabelle
  imports Main "HOL-Library.AList" "HOL-Library.Sublist"
begin

section \<open>CloudWanderer: discovery, write and reconciliation\<close>

text \<open>
  A shallow embedding of \<^verbatim>\<open>cloudwanderer/cloud_wanderer.py\<close> (class \<^verbatim>\<open>CloudWanderer\<close>).
  The class talks to two kinds of collaborators that are not part of that file: the
  \<^verbatim>\<open>CloudWandererBoto3Interface\<close> (the discovery provider) and the storage connectors.
  Both are taken as parameters: a record of functions each. Every call of a collaborator
  may raise, so every one of them returns a sum \<open>error + 'x\<close>.
\<close>

subsection \<open>Data model\<close>

datatype error = KeyError string | ProviderError string | ConnectorError string

text \<open>
  Modelled from the spec: \<^verbatim>\<open>AwsUrn\<close> (\<^verbatim>\<open>cloudwanderer/aws_urn.py\<close> is not among the sources).
  Section 3 of the specification: an immutable value of five strings, equal iff all
  five fields are equal.
\<close>

record urn =
  urn_account_id :: string
  urn_region :: string
  urn_service :: string
  urn_resource_type :: string
  urn_resource_id :: string

text \<open>
  The values a \<^verbatim>\<open>client_args\<close> dictionary holds: \<^verbatim>\<open>None\<close>, a string, or some other object
  (a \<^verbatim>\<open>botocore.config.Config\<close>, say), which the code only passes through.
\<close>

datatype pyval = PyNone | PyStr string | PyObj nat

type_synonym pydict = "(string \<times> pyval) list"

text \<open>Python truthiness of an optional dictionary, an optional string, an optional list.\<close>

fun dict_truthy :: "pydict option \<Rightarrow> bool" where
  "dict_truthy None = False"
| "dict_truthy (Some d) = (d \<noteq> [])"

fun str_truthy :: "string option \<Rightarrow> bool" where
  "str_truthy None = False"
| "str_truthy (Some s) = (s \<noteq> [])"

fun pyval_of :: "string option \<Rightarrow> pyval" where
  "pyval_of None = PyNone"
| "pyval_of (Some s) = PyStr s"

text \<open>\<^verbatim>\<open>a or b\<close> on two optional strings.\<close>

definition str_or :: "string option \<Rightarrow> string option \<Rightarrow> pyval" where
  "str_or a b = (if str_truthy a then pyval_of a else pyval_of b)"

text \<open>\<^verbatim>\<open>d[k]\<close>: a missing key raises \<^verbatim>\<open>KeyError\<close>.\<close>

definition getitem :: "pydict \<Rightarrow> string \<Rightarrow> error + pyval" where
  "getitem d k = (case map_of d k of None \<Rightarrow> Inl (KeyError k) | Some v \<Rightarrow> Inr v)"

text \<open>\<^verbatim>\<open>exclude_resources or []\<close>.\<close>

fun or_empty :: "'x list option \<Rightarrow> 'x list" where
  "or_empty None = []"
| "or_empty (Some xs) = xs"

subsection \<open>The collaborators\<close>

text \<open>
  The methods of \<^verbatim>\<open>CloudWandererBoto3Interface\<close> that \<^verbatim>\<open>CloudWanderer\<close> calls, over an
  abstract type \<open>'r\<close> of boto3 resources and \<open>'a\<close> of secondary attributes.
  \<open>load\<close> is \<^verbatim>\<open>subresource.load()\<close>; \<open>attribute_type\<close> is
  \<^verbatim>\<open>xform_name(secondary_attribute.meta.resource_model.name)\<close>;
  \<open>get_all_resource_services\<close> gives the \<^verbatim>\<open>meta.service_name\<close> of each service.
  What the interface returns to iterate over is the list of what it yields, and a call
  that fails does so when it is made.
\<close>

record ('r, 'a) boto3_interface =
  enabled_regions :: "error + string list"
  get_all_resource_services :: "error + string list"
  get_service_resource_types :: "string \<Rightarrow> error + string list"
  get_resources_of_type :: "string \<Rightarrow> string option \<Rightarrow> pydict \<Rightarrow> error + 'r list"
  get_resource_urn :: "'r \<Rightarrow> pyval \<Rightarrow> error + urn"
  get_subresources :: "'r \<Rightarrow> error + 'r list"
  load :: "'r \<Rightarrow> error + 'r"
  get_secondary_attributes :: "'r \<Rightarrow> error + 'a list"
  attribute_type :: "'a \<Rightarrow> string"
  resource_regions_returned_from_api_region :: "string \<Rightarrow> pyval \<Rightarrow> error + string list"
  account_id :: "error + string"

text \<open>
  A storage connector is an object with three methods that change the storage behind
  it. All connectors live in one heap \<open>'h\<close>; a method that raises leaves it as it was.
\<close>

record ('h, 'r, 'a) storage_connector =
  write_resource :: "urn \<Rightarrow> 'r \<Rightarrow> 'h \<Rightarrow> error + 'h"
  write_secondary_attribute :: "urn \<Rightarrow> 'a \<Rightarrow> string \<Rightarrow> 'h \<Rightarrow> error + 'h"
  delete_resource_of_type_in_account_region ::
    "string \<Rightarrow> string option \<Rightarrow> string \<Rightarrow> string \<Rightarrow> urn list \<Rightarrow> 'h \<Rightarrow> error + 'h"

record ('h, 'r, 'a) cloud_wanderer =
  storage_connectors :: "('h, 'r, 'a) storage_connector list"
  boto3_session_region_name :: "string option"
  boto3_interface :: "('r, 'a) boto3_interface"

subsection \<open>Calls and the world\<close>

text \<open>
  The calls the claims speak about, as values: the fetch of the resources of a type,
  and the three connector methods, each with the position of the connector in
  \<open>storage_connectors\<close>. The arguments of the delete are service, resource type,
  account id, region and the Urns to keep.
\<close>

datatype ('r, 'a) call =
    GetResourcesOfType string "string option" pydict
  | WriteResource nat urn 'r
  | WriteSecondaryAttribute nat urn 'a string
  | DeleteResourceOfType nat string "string option" string string "urn list"

record ('h, 'r, 'a) world =
  heap :: 'h
  calls :: "('r, 'a) call list"

type_synonym ('h, 'r, 'a, 'x) prog = "('h, 'r, 'a) world \<Rightarrow> (error + 'x) \<times> ('h, 'r, 'a) world"

definition returnM :: "'x \<Rightarrow> ('h, 'r, 'a, 'x) prog" where
  "returnM x = (\<lambda>w. (Inr x, w))"

definition liftM :: "error + 'x \<Rightarrow> ('h, 'r, 'a, 'x) prog" where
  "liftM v = (\<lambda>w. (v, w))"

definition bindM ::
  "('h, 'r, 'a, 'x) prog \<Rightarrow> ('x \<Rightarrow> ('h, 'r, 'a, 'y) prog) \<Rightarrow> ('h, 'r, 'a, 'y) prog" where
  "bindM m f = (\<lambda>w. case m w of (Inl e, w') \<Rightarrow> (Inl e, w') | (Inr x, w') \<Rightarrow> f x w')"

text \<open>\<^verbatim>\<open>for x in xs: body(x)\<close>; an exception in the body ends the loop.\<close>

fun for_each :: "'x list \<Rightarrow> ('x \<Rightarrow> ('h, 'r, 'a, unit) prog) \<Rightarrow> ('h, 'r, 'a, unit) prog" where
  "for_each [] body = returnM ()"
| "for_each (x # xs) body = bindM (body x) (\<lambda>_. for_each xs body)"

definition record_call :: "('r, 'a) call \<Rightarrow> ('h, 'r, 'a, unit) prog" where
  "record_call c = (\<lambda>w. (Inr (), w\<lparr>calls := calls w @ [c]\<rparr>))"

text \<open>The method of a connector that a call value stands for.\<close>

fun perform :: "('h, 'r, 'a) storage_connector \<Rightarrow> ('r, 'a) call \<Rightarrow> 'h \<Rightarrow> error + 'h" where
  "perform sc (GetResourcesOfType s t d) = Inr"
| "perform sc (WriteResource i u r) = write_resource sc u r"
| "perform sc (WriteSecondaryAttribute i u a t) = write_secondary_attribute sc u a t"
| "perform sc (DeleteResourceOfType i s t acct reg keep) =
     delete_resource_of_type_in_account_region sc s t acct reg keep"

text \<open>One method call on one connector: the call is recorded, then made.\<close>

definition invoke ::
  "('h, 'r, 'a) storage_connector \<Rightarrow> ('r, 'a) call \<Rightarrow> ('h, 'r, 'a, unit) prog" where
  "invoke sc c =
     bindM (record_call c) (\<lambda>_ w.
       case perform sc c (heap w) of
         Inl e \<Rightarrow> (Inl e, w)
       | Inr h' \<Rightarrow> (Inr (), w\<lparr>heap := h'\<rparr>))"

subsection \<open>The methods of CloudWanderer\<close>

text \<open>
  \<^verbatim>\<open>_write_resource\<close>, the part after the parent's \<^verbatim>\<open>yield\<close>: the loop over the
  subresources. The generator is always consumed by \<^verbatim>\<open>list(...)\<close>, so the model returns
  the list of the Urns it yields.
\<close>

fun write_subresources ::
  "('h, 'r, 'a) cloud_wanderer \<Rightarrow> pyval \<Rightarrow> 'r list \<Rightarrow> ('h, 'r, 'a, urn list) prog" where
  "write_subresources cw region_name [] = returnM []"
| "write_subresources cw region_name (subresource # rest) =
     bindM (liftM (load (boto3_interface cw) subresource)) (\<lambda>loaded.
     bindM (liftM (get_resource_urn (boto3_interface cw) loaded region_name)) (\<lambda>urn.
     bindM (for_each (enumerate 0 (storage_connectors cw))
              (\<lambda>(i, sc). invoke sc (WriteResource i urn loaded))) (\<lambda>_.
     bindM (write_subresources cw region_name rest) (\<lambda>urns.
     returnM (urn # urns)))))"

text \<open>\<^verbatim>\<open>CloudWanderer._write_resource\<close>.\<close>

definition cw_write_resource ::
  "('h, 'r, 'a) cloud_wanderer \<Rightarrow> 'r \<Rightarrow> pyval \<Rightarrow> ('h, 'r, 'a, urn list) prog" where
  "cw_write_resource cw boto3_resource region_name =
     bindM (liftM (get_resource_urn (boto3_interface cw) boto3_resource region_name)) (\<lambda>urn.
     bindM (for_each (enumerate 0 (storage_connectors cw))
              (\<lambda>(i, sc). invoke sc (WriteResource i urn boto3_resource))) (\<lambda>_.
     bindM (liftM (get_subresources (boto3_interface cw) boto3_resource)) (\<lambda>subresources.
     bindM (write_subresources cw region_name subresources) (\<lambda>urns.
     returnM (urn # urns)))))"

text \<open>\<^verbatim>\<open>CloudWanderer._write_secondary_attributes\<close>: the loop, then the method.\<close>

fun write_attributes ::
  "('h, 'r, 'a) cloud_wanderer \<Rightarrow> 'r \<Rightarrow> pyval \<Rightarrow> 'a list \<Rightarrow> ('h, 'r, 'a, urn list) prog" where
  "write_attributes cw boto3_resource region_name [] = returnM []"
| "write_attributes cw boto3_resource region_name (secondary_attribute # rest) =
     bindM (liftM (get_resource_urn (boto3_interface cw) boto3_resource region_name)) (\<lambda>urn.
     bindM (for_each (enumerate 0 (storage_connectors cw))
              (\<lambda>(i, sc). invoke sc
                 (WriteSecondaryAttribute i urn secondary_attribute
                    (attribute_type (boto3_interface cw) secondary_attribute)))) (\<lambda>_.
     bindM (write_attributes cw boto3_resource region_name rest) (\<lambda>urns.
     returnM (urn # urns))))"

definition cw_write_secondary_attributes ::
  "('h, 'r, 'a) cloud_wanderer \<Rightarrow> 'r \<Rightarrow> pyval \<Rightarrow> ('h, 'r, 'a, urn list) prog" where
  "cw_write_secondary_attributes cw boto3_resource region_name =
     bindM (liftM (get_secondary_attributes (boto3_interface cw) boto3_resource))
       (write_attributes cw boto3_resource region_name)"

text \<open>
  \<^verbatim>\<open>CloudWanderer._clean_resources_in_region\<close>. The account id is a property of the
  interface, read once for each connector.
\<close>

definition cw_clean_resources_in_region ::
  "('h, 'r, 'a) cloud_wanderer \<Rightarrow> string \<Rightarrow> string option \<Rightarrow> string \<Rightarrow> urn list \<Rightarrow>
     ('h, 'r, 'a, unit) prog" where
  "cw_clean_resources_in_region cw service_name resource_type region_name current_urns =
     for_each (enumerate 0 (storage_connectors cw))
       (\<lambda>(i, sc).
          bindM (liftM (account_id (boto3_interface cw))) (\<lambda>acct.
          invoke sc (DeleteResourceOfType i service_name resource_type acct region_name
                       current_urns)))"

text \<open>
  The loop over the resources in \<^verbatim>\<open>write_resources_of_type_in_region\<close>: the list
  \<^verbatim>\<open>urns\<close> is extended by what \<^verbatim>\<open>_write_resource\<close> yields, then by what
  \<^verbatim>\<open>_write_secondary_attributes\<close> yields.
\<close>

fun write_each_resource ::
  "('h, 'r, 'a) cloud_wanderer \<Rightarrow> pyval \<Rightarrow> 'r list \<Rightarrow> ('h, 'r, 'a, urn list) prog" where
  "write_each_resource cw region_name [] = returnM []"
| "write_each_resource cw region_name (boto3_resource # rest) =
     bindM (cw_write_resource cw boto3_resource region_name) (\<lambda>written.
     bindM (cw_write_secondary_attributes cw boto3_resource region_name) (\<lambda>attrs.
     bindM (write_each_resource cw region_name rest) (\<lambda>urns.
     returnM (written @ attrs @ urns))))"

text \<open>The \<^verbatim>\<open>client_args\<close> that \<^verbatim>\<open>write_resources_of_type_in_region\<close> works with.\<close>

definition type_client_args ::
  "('h, 'r, 'a) cloud_wanderer \<Rightarrow> string option \<Rightarrow> pydict option \<Rightarrow> pydict" where
  "type_client_args cw region_name client_args =
     (if dict_truthy client_args then or_empty client_args
      else [(''region_name'', str_or region_name (boto3_session_region_name cw))])"

definition write_resources_of_type_in_region ::
  "('h, 'r, 'a) cloud_wanderer \<Rightarrow> string \<Rightarrow> string option \<Rightarrow> string option \<Rightarrow> pydict option \<Rightarrow>
     ('h, 'r, 'a, unit) prog" where
  "write_resources_of_type_in_region cw service_name resource_type region_name client_args =
     (let client_args = type_client_args cw region_name client_args in
      bindM (liftM (getitem client_args ''region_name'')) (\<lambda>region.
      bindM (record_call (GetResourcesOfType service_name resource_type client_args)) (\<lambda>_.
      bindM (liftM (get_resources_of_type (boto3_interface cw) service_name resource_type
                      client_args)) (\<lambda>resources.
      bindM (write_each_resource cw region resources) (\<lambda>urns.
      bindM (liftM (resource_regions_returned_from_api_region (boto3_interface cw)
                      service_name region)) (\<lambda>regions_returned.
      for_each regions_returned (\<lambda>region_name.
        cw_clean_resources_in_region cw service_name resource_type region_name urns)))))))"

text \<open>The \<^verbatim>\<open>client_args\<close> that \<^verbatim>\<open>write_resources_of_service_in_region\<close> passes down.\<close>

definition service_client_args ::
  "('h, 'r, 'a) cloud_wanderer \<Rightarrow> string option \<Rightarrow> pydict option \<Rightarrow> pydict" where
  "service_client_args cw region_name client_args =
     (let d = (if dict_truthy client_args then or_empty client_args else []);
          d = (if str_truthy region_name
               then AList.update ''region_name'' (pyval_of region_name) d else d)
      in if ''region_name'' \<notin> fst ` set d
         then AList.update ''region_name'' (pyval_of (boto3_session_region_name cw)) d
         else d)"

definition write_resources_of_service_in_region ::
  "('h, 'r, 'a) cloud_wanderer \<Rightarrow> string \<Rightarrow> string list option \<Rightarrow> string option \<Rightarrow>
     pydict option \<Rightarrow> ('h, 'r, 'a, unit) prog" where
  "write_resources_of_service_in_region cw service_name exclude_resources region_name
       client_args =
     (let client_args = service_client_args cw region_name client_args;
          exclude_resources = or_empty exclude_resources in
      bindM (liftM (get_service_resource_types (boto3_interface cw) service_name))
        (\<lambda>resource_types.
      for_each resource_types (\<lambda>resource_type.
        if resource_type \<in> set exclude_resources then returnM ()
        else write_resources_of_type_in_region cw service_name (Some resource_type) None
               (Some client_args))))"

definition write_resources_in_region ::
  "('h, 'r, 'a) cloud_wanderer \<Rightarrow> string list option \<Rightarrow> string option \<Rightarrow> pydict option \<Rightarrow>
     ('h, 'r, 'a, unit) prog" where
  "write_resources_in_region cw exclude_resources region_name client_args =
     (let exclude_resources = or_empty exclude_resources in
      bindM (liftM (get_all_resource_services (boto3_interface cw))) (\<lambda>services.
      for_each services (\<lambda>service_name.
        write_resources_of_service_in_region cw service_name (Some exclude_resources)
          region_name client_args)))"

definition write_resources ::
  "('h, 'r, 'a) cloud_wanderer \<Rightarrow> string list option \<Rightarrow> pydict option \<Rightarrow>
     ('h, 'r, 'a, unit) prog" where
  "write_resources cw exclude_resources client_args =
     bindM (liftM (enabled_regions (boto3_interface cw))) (\<lambda>regions.
     for_each regions (\<lambda>region_name.
       write_resources_in_region cw exclude_resources (Some region_name) client_args))"

subsection \<open>The calls of a method, as a function of the provider\<close>

text \<open>
  The provider is a snapshot: its answers do not depend on the storage. So what a
  method asks of the connectors can be computed without them: a \<open>plan\<close> is the list of
  the calls a method makes when no connector raises, up to the first failure of the
  provider, with the outcome that follows them. The plans below repeat the methods
  above line by line; \<open>run\<close> carries a plan out against the connectors, and the
  lemmas \<open>..._plan\<close> show that each method is the run of its plan.
\<close>

type_synonym ('r, 'a, 'x) plan = "('r, 'a) call list \<times> (error + 'x)"

definition preturn :: "'x \<Rightarrow> ('r, 'a, 'x) plan" where
  "preturn x = ([], Inr x)"

definition plift :: "error + 'x \<Rightarrow> ('r, 'a, 'x) plan" where
  "plift v = ([], v)"

definition pemit :: "('r, 'a) call \<Rightarrow> ('r, 'a, unit) plan" where
  "pemit c = ([c], Inr ())"

definition pbind :: "('r, 'a, 'x) plan \<Rightarrow> ('x \<Rightarrow> ('r, 'a, 'y) plan) \<Rightarrow> ('r, 'a, 'y) plan" where
  "pbind p f =
     (case snd p of Inl e \<Rightarrow> (fst p, Inl e) | Inr x \<Rightarrow> (fst p @ fst (f x), snd (f x)))"

fun pfor :: "'x list \<Rightarrow> ('x \<Rightarrow> ('r, 'a, unit) plan) \<Rightarrow> ('r, 'a, unit) plan" where
  "pfor [] body = preturn ()"
| "pfor (x # xs) body = pbind (body x) (\<lambda>_. pfor xs body)"

text \<open>The position of the connector a call goes to.\<close>

fun call_index :: "('r, 'a) call \<Rightarrow> nat" where
  "call_index (GetResourcesOfType s t d) = 0"
| "call_index (WriteResource i u r) = i"
| "call_index (WriteSecondaryAttribute i u a t) = i"
| "call_index (DeleteResourceOfType i s t acct reg keep) = i"

fun exec ::
  "('h, 'r, 'a) storage_connector list \<Rightarrow> ('r, 'a) call list \<Rightarrow> ('h, 'r, 'a, unit) prog" where
  "exec cs [] = returnM ()"
| "exec cs (c # rest) = bindM (invoke (cs ! call_index c) c) (\<lambda>_. exec cs rest)"

definition run ::
  "('h, 'r, 'a) storage_connector list \<Rightarrow> ('r, 'a, 'x) plan \<Rightarrow> ('h, 'r, 'a, 'x) prog" where
  "run cs p = bindM (exec cs (fst p)) (\<lambda>_. liftM (snd p))"

fun p_write_subresources ::
  "('r, 'a) boto3_interface \<Rightarrow> nat \<Rightarrow> pyval \<Rightarrow> 'r list \<Rightarrow> ('r, 'a, urn list) plan" where
  "p_write_subresources pi n region_name [] = preturn []"
| "p_write_subresources pi n region_name (subresource # rest) =
     pbind (plift (load pi subresource)) (\<lambda>loaded.
     pbind (plift (get_resource_urn pi loaded region_name)) (\<lambda>urn.
     pbind (pfor [0..<n] (\<lambda>i. pemit (WriteResource i urn loaded))) (\<lambda>_.
     pbind (p_write_subresources pi n region_name rest) (\<lambda>urns.
     preturn (urn # urns)))))"

definition p_write_resource ::
  "('r, 'a) boto3_interface \<Rightarrow> nat \<Rightarrow> 'r \<Rightarrow> pyval \<Rightarrow> ('r, 'a, urn list) plan" where
  "p_write_resource pi n boto3_resource region_name =
     pbind (plift (get_resource_urn pi boto3_resource region_name)) (\<lambda>urn.
     pbind (pfor [0..<n] (\<lambda>i. pemit (WriteResource i urn boto3_resource))) (\<lambda>_.
     pbind (plift (get_subresources pi boto3_resource)) (\<lambda>subresources.
     pbind (p_write_subresources pi n region_name subresources) (\<lambda>urns.
     preturn (urn # urns)))))"

fun p_write_attributes ::
  "('r, 'a) boto3_interface \<Rightarrow> nat \<Rightarrow> 'r \<Rightarrow> pyval \<Rightarrow> 'a list \<Rightarrow> ('r, 'a, urn list) plan" where
  "p_write_attributes pi n boto3_resource region_name [] = preturn []"
| "p_write_attributes pi n boto3_resource region_name (secondary_attribute # rest) =
     pbind (plift (get_resource_urn pi boto3_resource region_name)) (\<lambda>urn.
     pbind (pfor [0..<n] (\<lambda>i. pemit
              (WriteSecondaryAttribute i urn secondary_attribute
                 (attribute_type pi secondary_attribute)))) (\<lambda>_.
     pbind (p_write_attributes pi n boto3_resource region_name rest) (\<lambda>urns.
     preturn (urn # urns))))"

definition p_write_secondary_attributes ::
  "('r, 'a) boto3_interface \<Rightarrow> nat \<Rightarrow> 'r \<Rightarrow> pyval \<Rightarrow> ('r, 'a, urn list) plan" where
  "p_write_secondary_attributes pi n boto3_resource region_name =
     pbind (plift (get_secondary_attributes pi boto3_resource))
       (p_write_attributes pi n boto3_resource region_name)"

definition p_clean_resources_in_region ::
  "('r, 'a) boto3_interface \<Rightarrow> nat \<Rightarrow> string \<Rightarrow> string option \<Rightarrow> string \<Rightarrow> urn list \<Rightarrow>
     ('r, 'a, unit) plan" where
  "p_clean_resources_in_region pi n service_name resource_type region_name current_urns =
     pfor [0..<n] (\<lambda>i.
       pbind (plift (account_id pi)) (\<lambda>acct.
       pemit (DeleteResourceOfType i service_name resource_type acct region_name
                current_urns)))"

fun p_write_each_resource ::
  "('r, 'a) boto3_interface \<Rightarrow> nat \<Rightarrow> pyval \<Rightarrow> 'r list \<Rightarrow> ('r, 'a, urn list) plan" where
  "p_write_each_resource pi n region_name [] = preturn []"
| "p_write_each_resource pi n region_name (boto3_resource # rest) =
     pbind (p_write_resource pi n boto3_resource region_name) (\<lambda>written.
     pbind (p_write_secondary_attributes pi n boto3_resource region_name) (\<lambda>attrs.
     pbind (p_write_each_resource pi n region_name rest) (\<lambda>urns.
     preturn (written @ attrs @ urns))))"

definition p_write_type ::
  "('r, 'a) boto3_interface \<Rightarrow> nat \<Rightarrow> string \<Rightarrow> string option \<Rightarrow> pydict \<Rightarrow>
     ('r, 'a, unit) plan" where
  "p_write_type pi n service_name resource_type client_args =
     pbind (plift (getitem client_args ''region_name'')) (\<lambda>region.
     pbind (pemit (GetResourcesOfType service_name resource_type client_args)) (\<lambda>_.
     pbind (plift (get_resources_of_type pi service_name resource_type client_args))
       (\<lambda>resources.
     pbind (p_write_each_resource pi n region resources) (\<lambda>urns.
     pbind (plift (resource_regions_returned_from_api_region pi service_name region))
       (\<lambda>regions_returned.
     pfor regions_returned (\<lambda>region_name.
       p_clean_resources_in_region pi n service_name resource_type region_name urns))))))"



subsection \<open>Reading the record of calls\<close>

text \<open>The calls a run has added to the record.\<close>

definition new_calls :: "('h, 'r, 'a) world \<Rightarrow> ('h, 'r, 'a) world \<Rightarrow> ('r, 'a) call list" where
  "new_calls w w' = drop (length (calls w)) (calls w')"

fun is_write :: "('r, 'a) call \<Rightarrow> bool" where
  "is_write (WriteResource i u r) = True"
| "is_write (WriteSecondaryAttribute i u a t) = True"
| "is_write _ = False"

fun is_delete :: "('r, 'a) call \<Rightarrow> bool" where
  "is_delete (DeleteResourceOfType i s t acct reg keep) = True"
| "is_delete _ = False"

text \<open>
  The Urns written as resources or subresources: those of the \<open>write_resource\<close> calls.
  A \<open>write_secondary_attribute\<close> call writes no resource record.
\<close>

fun written_urn :: "('r, 'a) call \<Rightarrow> urn list" where
  "written_urn (WriteResource i u r) = [u]"
| "written_urn _ = []"

definition written_urns :: "('r, 'a) call list \<Rightarrow> urn list" where
  "written_urns cs = concat (map written_urn cs)"


text \<open>
  A \<open>write_resource\<close> call for a loaded subresource of a resource, under the Urn the
  provider gives it.
\<close>

definition is_subresource_write ::
  "('r, 'a) boto3_interface \<Rightarrow> pyval \<Rightarrow> 'r \<Rightarrow> ('r, 'a) call \<Rightarrow> bool" where
  "is_subresource_write pi region_name boto3_resource c =
     (case c of
        WriteResource i u l \<Rightarrow>
          (case get_subresources pi boto3_resource of
             Inr subresources \<Rightarrow>
               \<exists>sub\<in>set subresources. load pi sub = Inr l \<and>
                 get_resource_urn pi l region_name = Inr u
           | Inl e \<Rightarrow> False)
      | _ \<Rightarrow> False)"



subsection \<open>A storage connector\<close>

text \<open>
  Modelled from the spec: the storage connector (\<^verbatim>\<open>cloudwanderer/storage_connectors\<close> is
  not among the sources). Sections 3, 4.3 and 6 of the specification: a connector holds
  resource records, each a Urn with the resource, and secondary attribute records, each
  a Urn, an attribute type and the attribute; a write is an upsert; the delete removes
  all stored records matching (service, resource type, region, account id) whose Urn
  is not among the Urns to keep. The connector at position \<open>i\<close> keeps its records in
  component \<open>i\<close> of the heap, and never raises.
\<close>

record ('r, 'a) store =
  resources :: "(urn \<times> 'r) list"
  secondary_attributes :: "((urn \<times> string) \<times> 'a) list"

text \<open>
  Modelled from the spec: the match of a stored record with a scope, which the missing
  connector makes. Section 4.3: a record matches (service, resource type, region,
  account id) by the fields of its Urn.
\<close>

definition in_scope :: "string \<Rightarrow> string option \<Rightarrow> string \<Rightarrow> string \<Rightarrow> urn \<Rightarrow> bool" where
  "in_scope s t acct reg u =
     (urn_service u = s \<and> Some (urn_resource_type u) = t \<and> urn_account_id u = acct \<and>
      urn_region u = reg)"

text \<open>
  Modelled from the spec: the records the missing connector's delete removes.
  Section 4.3: those matching the scope whose Urn is not in the keep-set.
\<close>

definition stale ::
  "string \<Rightarrow> string option \<Rightarrow> string \<Rightarrow> string \<Rightarrow> urn list \<Rightarrow> urn \<Rightarrow> bool" where
  "stale s t acct reg keep u = (in_scope s t acct reg u \<and> u \<notin> set keep)"

text \<open>
  Modelled from the spec: \<^verbatim>\<open>write_resource\<close> and \<^verbatim>\<open>write_secondary_attribute\<close> of the
  missing connector. Section 3: each write is an upsert, of the record of a Urn, or of
  the record of a Urn and an attribute type.
\<close>

definition store_write :: "urn \<Rightarrow> 'r \<Rightarrow> ('r, 'a) store \<Rightarrow> ('r, 'a) store" where
  "store_write u r st = st\<lparr>resources := AList.update u r (resources st)\<rparr>"

definition store_write_attribute ::
  "urn \<Rightarrow> 'a \<Rightarrow> string \<Rightarrow> ('r, 'a) store \<Rightarrow> ('r, 'a) store" where
  "store_write_attribute u a ty st =
     st\<lparr>secondary_attributes := AList.update (u, ty) a (secondary_attributes st)\<rparr>"

text \<open>
  Modelled from the spec: \<^verbatim>\<open>delete_resource_of_type_in_account_region\<close> of the missing
  connector. Section 4.3: all stored records of the scope whose Urn is not to be kept
  are deleted, the others stay.
\<close>

definition store_delete ::
  "string \<Rightarrow> string option \<Rightarrow> string \<Rightarrow> string \<Rightarrow> urn list \<Rightarrow> ('r, 'a) store \<Rightarrow>
     ('r, 'a) store" where
  "store_delete s t acct reg keep st =
     st\<lparr>resources := filter (\<lambda>(u, r). \<not> stale s t acct reg keep u) (resources st),
        secondary_attributes :=
          filter (\<lambda>((u, ty), a). \<not> stale s t acct reg keep u) (secondary_attributes st)\<rparr>"

text \<open>
  Modelled from the spec: the missing connector as an object, its three methods on its
  own component of the heap.
\<close>

definition memory_connector ::
  "nat \<Rightarrow> (nat \<Rightarrow> ('r, 'a) store, 'r, 'a) storage_connector" where
  "memory_connector i =
     \<lparr>write_resource = (\<lambda>u r h. Inr (h(i := store_write u r (h i)))),
      write_secondary_attribute =
        (\<lambda>u a ty h. Inr (h(i := store_write_attribute u a ty (h i)))),
      delete_resource_of_type_in_account_region =
        (\<lambda>s t acct reg keep h. Inr (h(i := store_delete s t acct reg keep (h i))))\<rparr>"

definition memory_connectors ::
  "nat \<Rightarrow> (nat \<Rightarrow> ('r, 'a) store, 'r, 'a) storage_connector list" where
  "memory_connectors n = map memory_connector [0..<n]"

text \<open>The stored set of a scope: the Urns of the resource records in it.\<close>

definition stored_in_scope ::
  "string \<Rightarrow> string option \<Rightarrow> string \<Rightarrow> string \<Rightarrow> ('r, 'a) store \<Rightarrow> urn list" where
  "stored_in_scope s t acct reg st = filter (in_scope s t acct reg) (map fst (resources st))"

text \<open>
  What a call does to the store of the connector it goes to, what it does to the heap
  of the in-memory connectors, and the store of connector \<open>i\<close> after a list of calls.
\<close>

fun store_effect :: "('r, 'a) call \<Rightarrow> ('r, 'a) store \<Rightarrow> ('r, 'a) store" where
  "store_effect (GetResourcesOfType s t d) st = st"
| "store_effect (WriteResource i u r) st = store_write u r st"
| "store_effect (WriteSecondaryAttribute i u a ty) st = store_write_attribute u a ty st"
| "store_effect (DeleteResourceOfType i s t acct reg keep) st = store_delete s t acct reg keep st"

definition apply_call :: "('r, 'a) call \<Rightarrow> (nat \<Rightarrow> ('r, 'a) store) \<Rightarrow> nat \<Rightarrow> ('r, 'a) store" where
  "apply_call c h = h(call_index c := store_effect c (h (call_index c)))"

definition store_after :: "nat \<Rightarrow> ('r, 'a) call list \<Rightarrow> ('r, 'a) store \<Rightarrow> ('r, 'a) store" where
  "store_after i cs st = foldl (\<lambda>st c. if call_index c = i then store_effect c st else st) st cs"

text \<open>
  The resource records that the \<open>write_resource\<close> calls to connector \<open>i\<close> leave, the
  last write of a Urn winning, and the Urns that the deletes sent to connector \<open>i\<close> take
  for stale.
\<close>

fun written_map :: "nat \<Rightarrow> ('r, 'a) call list \<Rightarrow> urn \<rightharpoonup> 'r" where
  "written_map i [] = Map.empty"
| "written_map i (WriteResource j u r # cs) =
     (if j = i then [u \<mapsto> r] ++ written_map i cs else written_map i cs)"
| "written_map i (c # cs) = written_map i cs"

definition deleted_set :: "nat \<Rightarrow> ('r, 'a) call list \<Rightarrow> urn set" where
  "deleted_set i ds =
     {u. \<exists>s t acct reg keep. DeleteResourceOfType i s t acct reg keep \<in> set ds \<and>
           stale s t acct reg keep u}"

subsection \<open>An account to run the methods on\<close>

text \<open>
  One account \<open>111\<close> with one service \<open>ec2\<close> and the resource types \<open>vpc\<close> and \<open>image\<close>.
  There are two VPCs, \<open>v1\<close> with a subresource \<open>s1\<close> and a secondary attribute \<open>dns\<close>,
  and \<open>v2\<close>; there is no image. What is queried in one region is reported for the
  regions \<open>eu\<close> and \<open>us\<close>. Two connectors store what they are given; each starts with a
  VPC \<open>v0\<close> that no longer exists and with an image \<open>i0\<close>.
\<close>

definition ex_urn :: "string \<Rightarrow> string \<Rightarrow> string \<Rightarrow> urn" where
  "ex_urn reg ty ident =
     \<lparr>urn_account_id = ''111'', urn_region = reg, urn_service = ''ec2'',
      urn_resource_type = ty, urn_resource_id = ident\<rparr>"

definition ex_interface :: "(string, string) boto3_interface" where
  "ex_interface =
     \<lparr>enabled_regions = Inr [''eu''],
      get_all_resource_services = Inr [''ec2''],
      get_service_resource_types = (\<lambda>s. Inr [''vpc'', ''image'']),
      get_resources_of_type =
        (\<lambda>s t d. if t = Some ''vpc'' then Inr [''v1'', ''v2''] else Inr []),
      get_resource_urn =
        (\<lambda>r reg. case reg of PyStr x \<Rightarrow> Inr (ex_urn x ''vpc'' r)
                  | _ \<Rightarrow> Inl (ProviderError ''region'')),
      get_subresources = (\<lambda>r. if r = ''v1'' then Inr [''s1''] else Inr []),
      load = Inr,
      get_secondary_attributes = (\<lambda>r. if r = ''v1'' then Inr [''dns''] else Inr []),
      attribute_type = (\<lambda>a. a),
      resource_regions_returned_from_api_region = (\<lambda>s reg. Inr [''eu'', ''us'']),
      account_id = Inr ''111''\<rparr>"

definition ex_cw :: "(nat \<Rightarrow> (string, string) store, string, string) cloud_wanderer" where
  "ex_cw =
     \<lparr>storage_connectors = memory_connectors 2, boto3_session_region_name = Some ''eu'',
      boto3_interface = ex_interface\<rparr>"

definition ex_store :: "(string, string) store" where
  "ex_store =
     \<lparr>resources = [(ex_urn ''eu'' ''vpc'' ''v0'', ''v0''), (ex_urn ''eu'' ''image'' ''i0'', ''i0'')],
      secondary_attributes = []\<rparr>"

definition ex_world :: "(nat \<Rightarrow> (string, string) store, string, string) world" where
  "ex_world = \<lparr>heap = (\<lambda>i. ex_store), calls = []\<rparr>"


text \<open>The Urns the pass over the VPCs hands to the delete, and the calls it makes.\<close>

definition ex_keep :: "urn list" where
  "ex_keep =
     [ex_urn ''eu'' ''vpc'' ''v1'', ex_urn ''eu'' ''vpc'' ''s1'', ex_urn ''eu'' ''vpc'' ''v1'',
      ex_urn ''eu'' ''vpc'' ''v2'']"

definition ex_vpc_calls :: "(string, string) call list" where
  "ex_vpc_calls =
     [GetResourcesOfType ''ec2'' (Some ''vpc'') [(''region_name'', PyStr ''eu'')],
      WriteResource 0 (ex_urn ''eu'' ''vpc'' ''v1'') ''v1'',
      WriteResource 1 (ex_urn ''eu'' ''vpc'' ''v1'') ''v1'',
      WriteResource 0 (ex_urn ''eu'' ''vpc'' ''s1'') ''s1'',
      WriteResource 1 (ex_urn ''eu'' ''vpc'' ''s1'') ''s1'',
      WriteSecondaryAttribute 0 (ex_urn ''eu'' ''vpc'' ''v1'') ''dns'' ''dns'',
      WriteSecondaryAttribute 1 (ex_urn ''eu'' ''vpc'' ''v1'') ''dns'' ''dns'',
      WriteResource 0 (ex_urn ''eu'' ''vpc'' ''v2'') ''v2'',
      WriteResource 1 (ex_urn ''eu'' ''vpc'' ''v2'') ''v2'',
      DeleteResourceOfType 0 ''ec2'' (Some ''vpc'') ''111'' ''eu'' ex_keep,
      DeleteResourceOfType 1 ''ec2'' (Some ''vpc'') ''111'' ''eu'' ex_keep,
      DeleteResourceOfType 0 ''ec2'' (Some ''vpc'') ''111'' ''us'' ex_keep,
      DeleteResourceOfType 1 ''ec2'' (Some ''vpc'') ''111'' ''us'' ex_keep]"


section \<open>Lemmas\<close>

subsection \<open>Each method is the run of its plan\<close>

lemma bindM_returnM [simp]: "bindM (returnM x) f = f x"
  by (simp add: bindM_def returnM_def)

lemma bindM_liftM_Inr [simp]: "bindM (liftM (Inr x)) f = f x"
  by (simp add: bindM_def liftM_def)

lemma bindM_liftM_Inl [simp]: "bindM (liftM (Inl e)) f = liftM (Inl e)"
  by (simp add: bindM_def liftM_def)

lemma bindM_assoc: "bindM (bindM m f) g = bindM m (\<lambda>x. bindM (f x) g)"
  by (auto simp: bindM_def fun_eq_iff split: prod.splits sum.splits)

lemma bindM_unit_right [simp]: "bindM m (\<lambda>_. liftM (Inr ())) = m"
  by (auto simp: bindM_def liftM_def fun_eq_iff split: prod.splits sum.splits)

lemma bindM_unit_right' [simp]: "bindM m (\<lambda>_. returnM ()) = m"
  by (auto simp: bindM_def returnM_def fun_eq_iff split: prod.splits sum.splits)

lemma bindM_returnM_right [simp]: "bindM m returnM = m"
  by (auto simp: bindM_def returnM_def fun_eq_iff split: prod.splits sum.splits)

lemma exec_append: "exec cs (xs @ ys) = bindM (exec cs xs) (\<lambda>_. exec cs ys)"
  by (induction xs) (simp_all add: bindM_assoc)

lemma run_preturn [simp]: "run cs (preturn x) = returnM x"
  by (simp add: run_def preturn_def returnM_def liftM_def bindM_def)

lemma run_plift [simp]: "run cs (plift v) = liftM v"
  by (simp add: run_def plift_def)

lemma run_pemit: "run cs (pemit c) = invoke (cs ! call_index c) c"
  by (simp add: run_def pemit_def bindM_assoc)

lemma run_pbind: "run cs (pbind p f) = bindM (run cs p) (\<lambda>x. run cs (f x))"
  by (cases "snd p") (simp_all add: run_def pbind_def exec_append bindM_assoc)

lemma for_each_cong_run:
  "(\<And>x. x \<in> set xs \<Longrightarrow> body x = run cs (pbody x)) \<Longrightarrow>
   for_each xs body = run cs (pfor xs pbody)"
  by (induction xs) (simp_all add: run_pbind)

lemma for_each_map: "for_each (map h xs) body = for_each xs (\<lambda>x. body (h x))"
  by (induction xs) simp_all

lemma enumerate_as_map: "enumerate 0 cs = map (\<lambda>i. (i, cs ! i)) [0..<length cs]"
  by (rule nth_equalityI) (simp_all add: nth_enumerate_eq)

lemma for_each_connectors:
  assumes "\<And>i. i < length cs \<Longrightarrow> body (i, cs ! i) = run cs (pbody i)"
  shows "for_each (enumerate 0 cs) body = run cs (pfor [0..<length cs] pbody)"
  unfolding enumerate_as_map for_each_map
  by (rule for_each_cong_run) (simp add: assms)

lemma invoke_get: "invoke sc (GetResourcesOfType s t d) = record_call (GetResourcesOfType s t d)"
  by (auto simp: invoke_def record_call_def bindM_def fun_eq_iff)

lemma write_all_plan:
  "(\<And>i. call_index (ev i) = i) \<Longrightarrow>
   for_each (enumerate 0 cs) (\<lambda>(i, sc). invoke sc (ev i)) =
   run cs (pfor [0..<length cs] (\<lambda>i. pemit (ev i)))"
  by (rule for_each_connectors) (simp add: run_pemit)

lemma write_subresources_plan:
  "write_subresources cw region_name subs =
   run (storage_connectors cw)
     (p_write_subresources (boto3_interface cw) (length (storage_connectors cw)) region_name subs)"
  by (induction subs) (simp_all add: run_pbind write_all_plan)

lemma cw_write_resource_plan:
  "cw_write_resource cw r region_name =
   run (storage_connectors cw)
     (p_write_resource (boto3_interface cw) (length (storage_connectors cw)) r region_name)"
  by (simp add: cw_write_resource_def p_write_resource_def run_pbind write_all_plan
      write_subresources_plan)

lemma write_attributes_plan:
  "write_attributes cw r region_name attrs =
   run (storage_connectors cw)
     (p_write_attributes (boto3_interface cw) (length (storage_connectors cw)) r region_name attrs)"
  by (induction attrs) (simp_all add: run_pbind write_all_plan)

lemma cw_write_secondary_attributes_plan:
  "cw_write_secondary_attributes cw r region_name =
   run (storage_connectors cw)
     (p_write_secondary_attributes (boto3_interface cw) (length (storage_connectors cw)) r
        region_name)"
proof -
  have "write_attributes cw r region_name =
        (\<lambda>attrs. run (storage_connectors cw)
           (p_write_attributes (boto3_interface cw) (length (storage_connectors cw)) r
              region_name attrs))"
    by (rule ext) (rule write_attributes_plan)
  then show ?thesis
    by (simp add: cw_write_secondary_attributes_def p_write_secondary_attributes_def run_pbind)
qed

lemma cw_clean_resources_in_region_plan:
  "cw_clean_resources_in_region cw s t reg urns =
   run (storage_connectors cw)
     (p_clean_resources_in_region (boto3_interface cw) (length (storage_connectors cw)) s t reg
        urns)"
  unfolding cw_clean_resources_in_region_def p_clean_resources_in_region_def
  by (rule for_each_connectors) (simp add: run_pbind run_pemit)

lemma write_each_resource_plan:
  "write_each_resource cw region_name rs =
   run (storage_connectors cw)
     (p_write_each_resource (boto3_interface cw) (length (storage_connectors cw)) region_name rs)"
  by (induction rs)
    (simp_all add: run_pbind cw_write_resource_plan cw_write_secondary_attributes_plan)

lemma write_resources_of_type_in_region_plan:
  "write_resources_of_type_in_region cw s t region_name client_args =
   run (storage_connectors cw)
     (p_write_type (boto3_interface cw) (length (storage_connectors cw)) s t
        (type_client_args cw region_name client_args))"
  by (simp add: write_resources_of_type_in_region_def p_write_type_def Let_def run_pbind
      run_pemit invoke_get write_each_resource_plan cw_clean_resources_in_region_plan
      for_each_cong_run [symmetric])

lemma pbind_plift_Inr [simp]: "pbind (plift (Inr x)) f = f x"
  by (simp add: pbind_def plift_def)

lemma pbind_plift_Inl [simp]: "pbind (plift (Inl e)) f = ([], Inl e)"
  by (simp add: pbind_def plift_def)

lemma pbind_preturn [simp]: "pbind (preturn x) f = f x"
  by (simp add: pbind_def preturn_def)

lemma pbind_pemit [simp]: "pbind (pemit c) f = (c # fst (f ()), snd (f ()))"
  by (simp add: pbind_def pemit_def)

lemma fst_pbind: "fst (pbind p f) = (case snd p of Inl e \<Rightarrow> fst p | Inr x \<Rightarrow> fst p @ fst (f x))"
  by (simp add: pbind_def split: sum.splits)

lemma snd_pbind: "snd (pbind p f) = (case snd p of Inl e \<Rightarrow> Inl e | Inr x \<Rightarrow> snd (f x))"
  by (simp add: pbind_def split: sum.splits)

lemma pfor_pemit: "pfor xs (\<lambda>i. pemit (ev i)) = (map ev xs, Inr ())"
  by (induction xs) (simp_all add: preturn_def)

lemma invoke_calls:
  "invoke sc c w = (res, w') \<Longrightarrow> calls w' = calls w @ [c]"
  by (auto simp: invoke_def record_call_def bindM_def split: sum.splits)

lemma exec_calls_prefix:
  "exec cs xs w = (res, w') \<Longrightarrow> \<exists>k\<le>length xs. calls w' = calls w @ take k xs"
proof (induction xs arbitrary: w)
  case Nil
  then show ?case by (simp add: returnM_def)
next
  case (Cons c xs)
  obtain r1 w1 where i: "invoke (cs ! call_index c) c w = (r1, w1)" by force
  have c1: "calls w1 = calls w @ [c]" using invoke_calls [OF i] .
  show ?case
  proof (cases r1)
    case (Inl e)
    with Cons.prems i have "w' = w1" by (simp add: bindM_def)
    with c1 have "calls w' = calls w @ take 1 (c # xs)" by simp
    then show ?thesis by (intro exI [of _ 1]) simp
  next
    case (Inr u)
    with Cons.prems i have "exec cs xs w1 = (res, w')" by (simp add: bindM_def)
    from Cons.IH [OF this] obtain k where "k \<le> length xs" "calls w' = calls w1 @ take k xs"
      by blast
    with c1 have "calls w' = calls w @ take (Suc k) (c # xs)" "Suc k \<le> length (c # xs)" by simp_all
    then show ?thesis by blast
  qed
qed


lemma run_calls_prefix:
  "run cs p w = (res, w') \<Longrightarrow> \<exists>k\<le>length (fst p). calls w' = calls w @ take k (fst p)"
proof -
  assume r: "run cs p w = (res, w')"
  obtain r1 w1 where e: "exec cs (fst p) w = (r1, w1)" by force
  with r have "w' = w1" by (cases r1) (simp_all add: run_def bindM_def liftM_def)
  with exec_calls_prefix [OF e] show ?thesis by simp
qed


lemma new_calls_prefix:
  "run cs p w = (res, w') \<Longrightarrow> calls w' = calls w @ new_calls w w' \<and> prefix (new_calls w w') (fst p)"
  by (drule run_calls_prefix) (auto simp: new_calls_def take_is_prefix)


lemma written_urns_simps [simp]:
  "written_urns [] = []"
  "written_urns (c # cs) = written_urn c @ written_urns cs"
  "written_urns (xs @ ys) = written_urns xs @ written_urns ys"
  by (simp_all add: written_urns_def)

lemma written_urns_all_connectors:
  "written_urns (map (\<lambda>i. WriteResource i u r) xs) = replicate (length xs) u"
  by (induction xs) simp_all

lemma written_urns_attribute_calls:
  "written_urns (map (\<lambda>i. WriteSecondaryAttribute i u a t) xs) = []"
  by (induction xs) simp_all

lemma set_written_urns: "set (written_urns cs) = {u. \<exists>i r. WriteResource i u r \<in> set cs}"
proof (induction cs)
  case Nil
  then show ?case by simp
next
  case (Cons c cs)
  then show ?case by (cases c) auto
qed

lemma plan_parts [simp]:
  "fst (plift v) = []" "snd (plift v) = v"
  "fst (preturn x) = []" "snd (preturn x) = Inr x"
  "fst (pemit c) = [c]" "snd (pemit c) = Inr ()"
  by (simp_all add: plift_def preturn_def pemit_def)

lemma fst_write_subresources:
  "c \<in> set (fst (p_write_subresources pi n reg subs)) \<Longrightarrow> is_write c \<and> call_index c < n"
  by (induction subs)
    (auto simp: preturn_def fst_pbind pfor_pemit split: sum.splits)

lemma snd_write_subresources:
  "snd (p_write_subresources pi n reg subs) = Inr urns \<Longrightarrow> 0 < n \<Longrightarrow>
   set urns = set (written_urns (fst (p_write_subresources pi n reg subs)))"
proof (induction subs arbitrary: urns)
  case Nil
  then show ?case by (simp add: preturn_def)
next
  case (Cons s subs)
  from Cons.prems(1) obtain l u us where
    l: "load pi s = Inr l" and u: "get_resource_urn pi l reg = Inr u"
    and us: "snd (p_write_subresources pi n reg subs) = Inr us" and urns: "urns = u # us"
    by (auto simp: snd_pbind pfor_pemit preturn_def split: sum.splits)
  from Cons.IH [OF us Cons.prems(2)] l u us urns Cons.prems(2) show ?case
    by (simp add: fst_pbind pfor_pemit preturn_def written_urns_all_connectors)
qed

lemma fst_write_resource:
  "c \<in> set (fst (p_write_resource pi n r reg)) \<Longrightarrow> is_write c \<and> call_index c < n"
  by (auto simp: p_write_resource_def fst_pbind pfor_pemit split: sum.splits
      dest: fst_write_subresources)

lemma write_resource_closed:
  "get_resource_urn pi r reg = Inr u \<Longrightarrow>
   fst (p_write_resource pi n r reg) =
     map (\<lambda>i. WriteResource i u r) [0..<n] @
     (case get_subresources pi r of Inl e \<Rightarrow> []
      | Inr subs \<Rightarrow> fst (p_write_subresources pi n reg subs))"
  by (simp add: p_write_resource_def fst_pbind pfor_pemit split: sum.splits)

lemma snd_write_resource:
  assumes "snd (p_write_resource pi n r reg) = Inr urns" and "0 < n"
  shows "set urns = set (written_urns (fst (p_write_resource pi n r reg))) \<and>
         (\<exists>u. get_resource_urn pi r reg = Inr u \<and> u \<in> set urns)"
proof -
  from assms(1) obtain u subs us where
    u: "get_resource_urn pi r reg = Inr u" and s: "get_subresources pi r = Inr subs"
    and us: "snd (p_write_subresources pi n reg subs) = Inr us" and urns: "urns = u # us"
    by (auto simp: p_write_resource_def snd_pbind pfor_pemit split: sum.splits)
  from snd_write_subresources [OF us assms(2)] u s urns assms(2) show ?thesis
    by (simp add: write_resource_closed written_urns_all_connectors)
qed

lemma fst_write_attributes:
  "c \<in> set (fst (p_write_attributes pi n r reg attrs)) \<Longrightarrow>
   is_write c \<and> call_index c < n \<and> written_urn c = []"
  by (induction attrs) (auto simp: fst_pbind pfor_pemit split: sum.splits)

lemma snd_write_attributes:
  "snd (p_write_attributes pi n r reg attrs) = Inr urns \<Longrightarrow> x \<in> set urns \<Longrightarrow>
   get_resource_urn pi r reg = Inr x"
  by (induction attrs arbitrary: urns) (auto simp: snd_pbind pfor_pemit split: sum.splits)

lemma fst_write_secondary_attributes:
  "c \<in> set (fst (p_write_secondary_attributes pi n r reg)) \<Longrightarrow>
   is_write c \<and> call_index c < n \<and> written_urn c = []"
  by (auto simp: p_write_secondary_attributes_def fst_pbind split: sum.splits
      dest: fst_write_attributes)

lemma snd_write_secondary_attributes:
  "snd (p_write_secondary_attributes pi n r reg) = Inr urns \<Longrightarrow> x \<in> set urns \<Longrightarrow>
   get_resource_urn pi r reg = Inr x"
  by (auto simp: p_write_secondary_attributes_def snd_pbind split: sum.splits
      dest: snd_write_attributes)

lemma written_urns_empty: "(\<And>c. c \<in> set cs \<Longrightarrow> written_urn c = []) \<Longrightarrow> written_urns cs = []"
  by (induction cs) simp_all

lemma fst_write_each_resource:
  "c \<in> set (fst (p_write_each_resource pi n reg rs)) \<Longrightarrow> is_write c \<and> call_index c < n"
  by (induction rs)
    (auto simp: fst_pbind split: sum.splits
      dest: fst_write_resource fst_write_secondary_attributes)

lemma snd_write_each_resource:
  "snd (p_write_each_resource pi n reg rs) = Inr urns \<Longrightarrow> 0 < n \<Longrightarrow>
   set urns = set (written_urns (fst (p_write_each_resource pi n reg rs)))"
proof (induction rs arbitrary: urns)
  case Nil
  then show ?case by simp
next
  case (Cons r rs)
  from Cons.prems(1) obtain written attrs rest where
    w: "snd (p_write_resource pi n r reg) = Inr written"
    and a: "snd (p_write_secondary_attributes pi n r reg) = Inr attrs"
    and e: "snd (p_write_each_resource pi n reg rs) = Inr rest"
    and urns: "urns = written @ attrs @ rest"
    by (auto simp: snd_pbind split: sum.splits)
  from snd_write_resource [OF w Cons.prems(2)] obtain u where
    ws: "set written = set (written_urns (fst (p_write_resource pi n r reg)))"
    and u: "get_resource_urn pi r reg = Inr u" "u \<in> set written" by blast
  have as: "set attrs \<subseteq> set written"
    using snd_write_secondary_attributes [OF a] u by auto
  have wa: "written_urns (fst (p_write_secondary_attributes pi n r reg)) = []"
    by (rule written_urns_empty) (simp add: fst_write_secondary_attributes)
  from Cons.IH [OF e Cons.prems(2)] ws as wa w a e urns show ?case
    by (auto simp: fst_pbind)
qed

lemma pfor_fail: "pfor xs (\<lambda>i. ([], Inl e)) = (if xs = [] then ([], Inr ()) else ([], Inl e))"
  by (cases xs) (simp_all add: preturn_def pbind_def)

lemma clean_closed:
  "p_clean_resources_in_region pi n s t reg urns =
     (case account_id pi of
        Inr acct \<Rightarrow> (map (\<lambda>i. DeleteResourceOfType i s t acct reg urns) [0..<n], Inr ())
      | Inl e \<Rightarrow> if n = 0 then ([], Inr ()) else ([], Inl e))"
  by (cases "account_id pi")
    (simp_all add: p_clean_resources_in_region_def pfor_pemit pfor_fail)

lemma pfor_clean_ok:
  "account_id pi = Inr acct \<Longrightarrow>
   pfor regs (\<lambda>reg. p_clean_resources_in_region pi n s t reg urns) =
     (concat (map (\<lambda>reg. map (\<lambda>i. DeleteResourceOfType i s t acct reg urns) [0..<n]) regs),
      Inr ())"
  by (induction regs) (simp_all add: clean_closed pbind_def preturn_def)

lemma fst_pfor_empty: "(\<And>x. fst (body x) = []) \<Longrightarrow> fst (pfor xs body) = []"
  by (induction xs) (simp_all add: fst_pbind split: sum.splits)

lemma pfor_clean_fail:
  "account_id pi = Inl e \<Longrightarrow>
   fst (pfor regs (\<lambda>reg. p_clean_resources_in_region pi n s t reg urns)) = []"
  by (rule fst_pfor_empty) (simp add: clean_closed)

lemma fst_pfor_clean:
  "c \<in> set (fst (pfor regs (\<lambda>reg. p_clean_resources_in_region pi n s t reg urns))) \<Longrightarrow>
   \<exists>i acct reg. c = DeleteResourceOfType i s t acct reg urns \<and> i < n \<and> reg \<in> set regs"
  by (cases "account_id pi") (auto simp: pfor_clean_ok pfor_clean_fail)

lemma type_pass_shape:
  obtains g ws ds urns where
    "fst (p_write_type pi n s t ca) = g @ ws @ ds"
    "set g \<subseteq> {GetResourcesOfType s t ca}"
    "\<And>c. c \<in> set ws \<Longrightarrow> is_write c \<and> call_index c < n"
    "\<And>c. c \<in> set ds \<Longrightarrow> \<exists>i acct reg. c = DeleteResourceOfType i s t acct reg urns \<and> i < n"
    "ds \<noteq> [] \<Longrightarrow> set urns = set (written_urns ws)"
proof (cases "getitem ca ''region_name''")
  case (Inl e)
  then have "fst (p_write_type pi n s t ca) = [] @ [] @ []"
    by (simp add: p_write_type_def)
  then show ?thesis by (rule that [where urns = "[]"]) simp_all
next
  case region: (Inr region)
  show ?thesis
  proof (cases "get_resources_of_type pi s t ca")
    case (Inl e)
    with region have "fst (p_write_type pi n s t ca) = [GetResourcesOfType s t ca] @ [] @ []"
      by (simp add: p_write_type_def)
    then show ?thesis by (rule that [where urns = "[]"]) simp_all
  next
    case rs: (Inr rs)
    let ?W = "p_write_each_resource pi n region rs"
    show ?thesis
    proof (cases "snd ?W")
      case (Inl e)
      with region rs have
        "fst (p_write_type pi n s t ca) = [GetResourcesOfType s t ca] @ fst ?W @ []"
        by (simp add: p_write_type_def fst_pbind)
      then show ?thesis
        by (rule that [where urns = "[]"]) (simp_all add: fst_write_each_resource)
    next
      case urns: (Inr urns)
      let ?D = "case resource_regions_returned_from_api_region pi s region of
                  Inl e \<Rightarrow> []
                | Inr regs \<Rightarrow>
                    fst (pfor regs (\<lambda>reg. p_clean_resources_in_region pi n s t reg urns))"
      from region rs urns have
        eq: "fst (p_write_type pi n s t ca) = [GetResourcesOfType s t ca] @ fst ?W @ ?D"
        by (simp add: p_write_type_def fst_pbind split: sum.splits)
      have d: "\<exists>i acct reg. c = DeleteResourceOfType i s t acct reg urns \<and> i < n"
        if "c \<in> set ?D" for c
        using that by (auto split: sum.splits dest: fst_pfor_clean)
      have k: "set urns = set (written_urns (fst ?W))" if "?D \<noteq> []"
      proof -
        from that obtain c where "c \<in> set ?D" by (cases ?D) auto
        from d [OF this] have "0 < n" by auto
        from snd_write_each_resource [OF urns this] show ?thesis .
      qed
      show ?thesis
      proof (rule that [where urns = urns and ds = ?D and ws = "fst ?W"
            and g = "[GetResourcesOfType s t ca]"])
        show "fst (p_write_type pi n s t ca) = [GetResourcesOfType s t ca] @ fst ?W @ ?D"
          by (rule eq)
        show "set [GetResourcesOfType s t ca] \<subseteq> {GetResourcesOfType s t ca}" by simp
        show "is_write c \<and> call_index c < n" if "c \<in> set (fst ?W)" for c
          using that by (rule fst_write_each_resource)
        show "\<exists>i acct reg. c = DeleteResourceOfType i s t acct reg urns \<and> i < n"
          if "c \<in> set ?D" for c using that by (rule d)
        show "set urns = set (written_urns (fst ?W))" if "?D \<noteq> []"
          using that by (rule k)
      qed
    qed
  qed
qed




lemma type_pass_calls:
  "\<exists>g ws ds urns.
     fst (p_write_type pi n s t ca) = g @ ws @ ds \<and>
     set g \<subseteq> {GetResourcesOfType s t ca} \<and>
     (\<forall>c\<in>set ws. is_write c \<and> call_index c < n) \<and>
     (\<forall>c\<in>set ds. \<exists>i acct reg. c = DeleteResourceOfType i s t acct reg urns \<and> i < n) \<and>
     (ds \<noteq> [] \<longrightarrow> set urns = set (written_urns ws))"
  by (rule type_pass_shape [of pi n s t ca]) blast

subsection \<open>Failures, regions and order\<close>

lemma write_not_delete: "is_write c \<Longrightarrow> \<not> is_delete c"
  by (cases c) simp_all








lemma fst_write_subresources_origin:
  "c \<in> set (fst (p_write_subresources pi n reg subs)) \<Longrightarrow>
   \<exists>i u l. c = WriteResource i u l \<and>
     (\<exists>sub\<in>set subs. load pi sub = Inr l \<and> get_resource_urn pi l reg = Inr u)"
  by (induction subs) (auto simp: fst_pbind pfor_pemit split: sum.splits)

lemma writes_before_deletes:
  assumes "\<forall>c\<in>set xs. \<not> is_delete c" and "\<forall>c\<in>set ds. \<not> is_write c"
    and "prefix new (xs @ ds)"
    and "j < length new" and "k < length new"
    and "is_write (new ! j)" and "is_delete (new ! k)"
  shows "j < k"
proof -
  from assms(3) obtain rest where all: "xs @ ds = new @ rest" by (auto simp: prefix_def)
  from assms(4,5) have nj: "new ! j = (xs @ ds) ! j" and nk: "new ! k = (xs @ ds) ! k"
    by (simp_all add: all nth_append)
  from assms(4,5) all have lj: "j < length (xs @ ds)" and lk: "k < length (xs @ ds)"
    by simp_all
  have "j < length xs"
  proof (rule ccontr)
    assume "\<not> j < length xs"
    with lj have "(xs @ ds) ! j \<in> set ds" by (simp add: nth_append)
    with assms(2,6) nj show False by simp
  qed
  moreover have "\<not> k < length xs"
  proof
    assume "k < length xs"
    then have "(xs @ ds) ! k \<in> set xs" by (simp add: nth_append)
    with assms(1,7) nk show False by simp
  qed
  ultimately show ?thesis by simp
qed

subsection \<open>The traversal of a service and of a region\<close>










subsection \<open>The in-memory connectors\<close>

lemma perform_memory:
  "perform (memory_connector (call_index c)) c h = Inr (apply_call c h)"
  by (cases c) (simp_all add: memory_connector_def apply_call_def)

lemma invoke_memory:
  assumes "is_write c \<or> is_delete c \<longrightarrow> call_index c < n"
  shows "invoke (memory_connectors n ! call_index c) c w =
     (Inr (), w\<lparr>calls := calls w @ [c], heap := apply_call c (heap w)\<rparr>)"
proof (cases "is_write c \<or> is_delete c")
  case True
  with assms show ?thesis
    by (simp add: invoke_def memory_connectors_def perform_memory bindM_def record_call_def)
next
  case False
  then obtain s t d where "c = GetResourcesOfType s t d" by (cases c) simp_all
  then show ?thesis
    by (simp add: invoke_def bindM_def record_call_def apply_call_def)
qed

lemma exec_memory:
  "\<forall>c\<in>set cs. is_write c \<or> is_delete c \<longrightarrow> call_index c < n \<Longrightarrow>
   exec (memory_connectors n) cs w =
     (Inr (), w\<lparr>calls := calls w @ cs, heap := foldl (\<lambda>h c. apply_call c h) (heap w) cs\<rparr>)"
proof (induction cs arbitrary: w)
  case Nil
  then show ?case by (simp add: returnM_def)
next
  case (Cons c cs)
  then show ?case by (simp add: invoke_memory bindM_def)
qed

lemma run_memory:
  "\<forall>c\<in>set (fst p). is_write c \<or> is_delete c \<longrightarrow> call_index c < n \<Longrightarrow>
   run (memory_connectors n) p w =
     (snd p, w\<lparr>calls := calls w @ fst p,
               heap := foldl (\<lambda>h c. apply_call c h) (heap w) (fst p)\<rparr>)"
  by (simp add: run_def exec_memory bindM_def liftM_def)

lemma heap_after:
  "foldl (\<lambda>h c. apply_call c h) h cs i = store_after i cs (h i)"
proof (induction cs arbitrary: h)
  case Nil
  then show ?case by (simp add: store_after_def)
next
  case (Cons c cs)
  have "store_after i (c # cs) (h i) = store_after i cs (apply_call c h i)"
    by (simp add: store_after_def apply_call_def)
  with Cons show ?case by simp
qed

lemma store_after_append [simp]:
  "store_after i (xs @ ys) st = store_after i ys (store_after i xs st)"
  by (simp add: store_after_def)

lemma store_after_Nil [simp]: "store_after i [] st = st"
  by (simp add: store_after_def)

lemma store_after_Cons:
  "store_after i (c # cs) st =
     store_after i cs (if call_index c = i then store_effect c st else st)"
  by (simp add: store_after_def)


lemma length_memory_connectors [simp]: "length (memory_connectors n) = n"
  by (simp add: memory_connectors_def)





lemma heap_after_all:
  "foldl (\<lambda>h c. apply_call c h) h cs = (\<lambda>i. store_after i cs (h i))"
  by (rule ext) (rule heap_after)

lemma store_after_get [simp]:
  "store_after i (GetResourcesOfType s t d # cs) st = store_after i cs st"
  by (simp add: store_after_Cons)

lemma type_pass_memory:
  assumes "storage_connectors cw = memory_connectors n"
  shows "write_resources_of_type_in_region cw s t region_name client_args w =
     (let p = p_write_type (boto3_interface cw) n s t
                (type_client_args cw region_name client_args)
      in (snd p, w\<lparr>calls := calls w @ fst p,
                    heap := (\<lambda>i. store_after i (fst p) (heap w i))\<rparr>))"
proof -
  let ?p = "p_write_type (boto3_interface cw) n s t (type_client_args cw region_name client_args)"
  obtain g ws ds urns where
    "fst ?p = g @ ws @ ds"
    "set g \<subseteq> {GetResourcesOfType s t (type_client_args cw region_name client_args)}"
    "\<forall>c\<in>set ws. is_write c \<and> call_index c < n"
    "\<forall>c\<in>set ds. \<exists>i acct reg. c = DeleteResourceOfType i s t acct reg urns \<and> i < n"
    using type_pass_calls [of "boto3_interface cw" n s t
        "type_client_args cw region_name client_args"] by blast
  then have "\<forall>c\<in>set (fst ?p). is_write c \<or> is_delete c \<longrightarrow> call_index c < n"
    by auto
  from run_memory [OF this] show ?thesis
    by (simp add: write_resources_of_type_in_region_plan assms heap_after_all Let_def)
qed

lemma map_of_store_delete:
  "map_of (resources (store_delete s t acct reg keep st)) =
   map_of (resources st) |` {u. \<not> stale s t acct reg keep u}"
proof -
  have "filter (\<lambda>(u, r). \<not> stale s t acct reg keep u) (resources st) =
        AList.restrict {u. \<not> stale s t acct reg keep u} (resources st)"
    by (simp add: AList.restrict_eq)
  then show ?thesis by (simp add: store_delete_def restr_conv')
qed

lemma map_upd_add: "m(u \<mapsto> r) ++ w = m ++ ([u \<mapsto> r] ++ w)"
  by (simp add: map_add_def fun_eq_iff split: option.splits)

lemma map_of_store_after_writes:
  "\<forall>c\<in>set ws. is_write c \<Longrightarrow>
   map_of (resources (store_after i ws st)) = map_of (resources st) ++ written_map i ws"
proof (induction ws arbitrary: st)
  case Nil
  then show ?case by simp
next
  case (Cons c ws)
  from Cons.prems have "is_write c" by simp
  then show ?case
  proof (cases c)
    case (WriteResource j u r)
    show ?thesis
    proof (cases "j = i")
      case True
      have "map_of (resources (store_after i (c # ws) st)) =
            map_of (resources (store_after i ws (store_write u r st)))"
        by (simp add: store_after_Cons WriteResource True)
      also from Cons have "\<dots> = map_of (resources (store_write u r st)) ++ written_map i ws"
        by simp
      also have "\<dots> = (map_of (resources st))(u \<mapsto> r) ++ written_map i ws"
        by (simp add: store_write_def update_conv')
      also have "\<dots> = map_of (resources st) ++ ([u \<mapsto> r] ++ written_map i ws)"
        by (rule map_upd_add)
      finally show ?thesis by (simp add: WriteResource True)
    next
      case False
      with Cons show ?thesis by (simp add: store_after_Cons WriteResource)
    qed
  next
    case (WriteSecondaryAttribute j u a ty)
    with Cons show ?thesis
      by (simp add: store_after_Cons store_write_attribute_def)
  qed simp_all
qed

lemma dom_written_map: "dom (written_map i ws) \<subseteq> set (written_urns ws)"
proof (induction ws)
  case Nil
  then show ?case by simp
next
  case (Cons c ws)
  then show ?case by (cases c) auto
qed

lemma map_of_store_after_deletes:
  "\<forall>c\<in>set ds. is_delete c \<Longrightarrow>
   map_of (resources (store_after i ds st)) = map_of (resources st) |` (- deleted_set i ds)"
proof (induction ds arbitrary: st)
  case Nil
  then show ?case by (simp add: deleted_set_def)
next
  case (Cons c ds)
  from Cons.prems obtain j s t acct reg keep where
    c: "c = DeleteResourceOfType j s t acct reg keep" by (cases c) auto
  show ?case
  proof (cases "j = i")
    case True
    have "u \<in> deleted_set i (c # ds) \<longleftrightarrow>
          stale s t acct reg keep u \<or> u \<in> deleted_set i ds" for u
      unfolding deleted_set_def c True by (simp, blast)
    then have "- deleted_set i (c # ds) = {u. \<not> stale s t acct reg keep u} \<inter> - deleted_set i ds"
      by auto
    moreover from Cons have
      "map_of (resources (store_after i ds (store_delete s t acct reg keep st))) =
       map_of (resources st) |` {u. \<not> stale s t acct reg keep u} |` (- deleted_set i ds)"
      by (simp add: map_of_store_delete)
    ultimately show ?thesis
      by (simp add: store_after_Cons c True)
  
  next
    case False
    then have "deleted_set i (c # ds) = deleted_set i ds"
      by (auto simp: deleted_set_def c)
    with Cons False show ?thesis
      by (simp add: store_after_Cons c)
  qed
qed

lemma store_after_gets:
  "set g \<subseteq> {GetResourcesOfType s t d} \<Longrightarrow> store_after i g st = st"
  by (induction g) auto

lemma stored_in_scope_dom:
  "set (stored_in_scope s t acct reg st) =
   {u \<in> dom (map_of (resources st)). in_scope s t acct reg u}"
  by (auto simp: stored_in_scope_def dom_map_of_conv_image_fst)

lemma pass_twice_same_records:
  assumes ws: "\<forall>c\<in>set ws. is_write c"
    and ds: "\<forall>c\<in>set ds. \<exists>j acct reg. c = DeleteResourceOfType j s t acct reg urns"
    and keep: "ds \<noteq> [] \<longrightarrow> set urns = set (written_urns ws)"
  shows "map_of (resources (store_after i (ws @ ds) (store_after i (ws @ ds) st))) =
         map_of (resources (store_after i (ws @ ds) st))"
proof -
  let ?W = "written_map i ws" and ?D = "deleted_set i ds"
  from ds have dd: "\<forall>c\<in>set ds. is_delete c" by auto
  have once: "map_of (resources (store_after i (ws @ ds) st')) =
      (map_of (resources st') ++ ?W) |` (- ?D)" for st'
    by (simp add: map_of_store_after_deletes [OF dd] map_of_store_after_writes [OF ws])
  have disjoint: "u \<notin> ?D" if "u \<in> dom ?W" for u
  proof
    assume "u \<in> ?D"
    then obtain s' t' acct reg keep where
      c: "DeleteResourceOfType i s' t' acct reg keep \<in> set ds" and "stale s' t' acct reg keep u"
      by (auto simp: deleted_set_def)
    then have "u \<notin> set keep" by (simp add: stale_def)
    moreover from c ds have "keep = urns" by auto
    moreover from c keep have "set urns = set (written_urns ws)" by auto
    ultimately show False using that dom_written_map [of i ws] by auto
  qed
  have "((map_of (resources st) ++ ?W) |` (- ?D) ++ ?W) |` (- ?D) =
        (map_of (resources st) ++ ?W) |` (- ?D)"
  proof (rule ext)
    fix u
    show "(((map_of (resources st) ++ ?W) |` (- ?D) ++ ?W) |` (- ?D)) u =
          ((map_of (resources st) ++ ?W) |` (- ?D)) u"
      using disjoint [of u]
      by (auto simp: restrict_map_def map_add_def split: option.splits)
  qed
  then show ?thesis by (simp only: once)
qed

subsection \<open>The example account, evaluated\<close>

lemmas ex_defs = ex_cw_def ex_world_def ex_store_def ex_interface_def memory_connectors_def
  memory_connector_def write_resources_of_type_in_region_def type_client_args_def getitem_def
  str_or_def cw_write_resource_def cw_write_secondary_attributes_def
  cw_clean_resources_in_region_def bindM_def liftM_def returnM_def record_call_def invoke_def
  enumerate_eq_zip store_write_def store_write_attribute_def store_delete_def stale_def
  in_scope_def ex_urn_def ex_keep_def ex_vpc_calls_def upt_rec

lemma ex_vpc_pass:
  "fst (write_resources_of_type_in_region ex_cw ''ec2'' (Some ''vpc'') None None ex_world) = Inr ()"
  "calls (snd (write_resources_of_type_in_region ex_cw ''ec2'' (Some ''vpc'') None None ex_world))
     = ex_vpc_calls"
  by (simp_all add: ex_defs)



lemma ex_write_v1:
  "calls (snd (cw_write_resource ex_cw ''v1'' (PyStr ''eu'') ex_world)) =
     [WriteResource 0 (ex_urn ''eu'' ''vpc'' ''v1'') ''v1'',
      WriteResource 1 (ex_urn ''eu'' ''vpc'' ''v1'') ''v1'',
      WriteResource 0 (ex_urn ''eu'' ''vpc'' ''s1'') ''s1'',
      WriteResource 1 (ex_urn ''eu'' ''vpc'' ''s1'') ''s1'']"
  by (simp add: ex_defs write_subresources.simps)


lemma ex_vpc_heap:
  "heap (snd (write_resources_of_type_in_region ex_cw ''ec2'' (Some ''vpc'') None None ex_world)) 0 =
     \<lparr>resources =
        [(ex_urn ''eu'' ''image'' ''i0'', ''i0''), (ex_urn ''eu'' ''vpc'' ''v1'', ''v1''),
         (ex_urn ''eu'' ''vpc'' ''s1'', ''s1''), (ex_urn ''eu'' ''vpc'' ''v2'', ''v2'')],
      secondary_attributes = [((ex_urn ''eu'' ''vpc'' ''v1'', ''dns''), ''dns'')]\<rparr>"
  by (simp add: ex_defs)

section \<open>The claims\<close>















text \<open>
  Claim C7. \<open>_write_resource\<close> writes the resource to the connectors in their order, and
  any further call it makes is the write of one of its loaded subresources, made after
  the resource has been written to every connector. In a pass of
  \<open>write_resources_of_type_in_region\<close>, every write call stands before every delete
  call in the record.
\<close>

theorem writes_in_order:
  "(cw_write_resource cw r region w = (res, w') \<longrightarrow>
    get_resource_urn (boto3_interface cw) r region = Inr u \<longrightarrow>
      calls w' = calls w @ new_calls w w' \<and>
      (prefix (new_calls w w')
         (map (\<lambda>i. WriteResource i u r) [0..<length (storage_connectors cw)]) \<or>
       prefix (map (\<lambda>i. WriteResource i u r) [0..<length (storage_connectors cw)])
         (new_calls w w') \<and>
       (\<forall>c\<in>set (drop (length (storage_connectors cw)) (new_calls w w')).
          is_subresource_write (boto3_interface cw) region r c))) \<and>
   (write_resources_of_type_in_region cw s t region_name client_args w = (res2, w2) \<longrightarrow>
      calls w2 = calls w @ new_calls w w2 \<and>
      (\<forall>j k. j < length (new_calls w w2) \<and> k < length (new_calls w w2) \<and>
         is_write (new_calls w w2 ! j) \<and> is_delete (new_calls w w2 ! k) \<longrightarrow> j < k))"
proof (intro conjI impI)
  let ?pi = "boto3_interface cw" and ?n = "length (storage_connectors cw)"
  let ?parent = "map (\<lambda>i. WriteResource i u r) [0..<?n]"
  assume run: "cw_write_resource cw r region w = (res, w')"
    and u: "get_resource_urn ?pi r region = Inr u"
  let ?rest = "case get_subresources ?pi r of Inl e \<Rightarrow> []
      | Inr subs \<Rightarrow> fst (p_write_subresources ?pi ?n region subs)"
  from run have "run (storage_connectors cw) (p_write_resource ?pi ?n r region) w = (res, w')"
    by (simp add: cw_write_resource_plan)
  from new_calls_prefix [OF this] write_resource_closed [OF u, of ?n]
  have c: "calls w' = calls w @ new_calls w w'"
    and p: "prefix (new_calls w w') (?parent @ ?rest)" by simp_all
  from c show "calls w' = calls w @ new_calls w w'" .
  from p consider "prefix (new_calls w w') ?parent"
    | us where "new_calls w w' = ?parent @ us" "prefix us ?rest"
    by (auto simp: prefix_append)
  then show "prefix (new_calls w w') ?parent \<or>
       prefix ?parent (new_calls w w') \<and>
       (\<forall>c\<in>set (drop ?n (new_calls w w')). is_subresource_write ?pi region r c)"
  proof cases
    case 1
    then show ?thesis by simp
  next
    case 2
    have "is_subresource_write ?pi region r c" if "c \<in> set us" for c
    proof -
      from that 2(2) have "c \<in> set ?rest" by (rule set_mono_prefix [THEN subsetD, rotated])
      then obtain subs where subs: "get_subresources ?pi r = Inr subs"
        and "c \<in> set (fst (p_write_subresources ?pi ?n region subs))"
        by (cases "get_subresources ?pi r") simp_all
      from fst_write_subresources_origin [OF this(2)] subs show ?thesis
        by (auto simp: is_subresource_write_def)
    qed
    with 2(1) show ?thesis by simp
  qed
next
  let ?p = "p_write_type (boto3_interface cw) (length (storage_connectors cw)) s t
              (type_client_args cw region_name client_args)"
  assume "write_resources_of_type_in_region cw s t region_name client_args w = (res2, w2)"
  then have "run (storage_connectors cw) ?p w = (res2, w2)"
    by (simp add: write_resources_of_type_in_region_plan)
  from new_calls_prefix [OF this]
  have c: "calls w2 = calls w @ new_calls w w2" and p: "prefix (new_calls w w2) (fst ?p)"
    by simp_all
  from c show "calls w2 = calls w @ new_calls w w2" .
  obtain g ws ds urns where
    shape: "fst ?p = g @ ws @ ds"
    and g: "set g \<subseteq> {GetResourcesOfType s t (type_client_args cw region_name client_args)}"
    and ws: "\<forall>c\<in>set ws. is_write c \<and> call_index c < length (storage_connectors cw)"
    and ds: "\<forall>c\<in>set ds. \<exists>i acct reg. c = DeleteResourceOfType i s t acct reg urns \<and>
                 i < length (storage_connectors cw)"
    using type_pass_calls [of "boto3_interface cw" "length (storage_connectors cw)" s t
          "type_client_args cw region_name client_args"] by blast
  have xs: "\<forall>c\<in>set (g @ ws). \<not> is_delete c"
    using g ws by (auto dest: write_not_delete)
  have dd: "\<forall>c\<in>set ds. \<not> is_write c" using ds by auto
  from p shape have pp: "prefix (new_calls w w2) ((g @ ws) @ ds)" by simp
  show "\<forall>j k. j < length (new_calls w w2) \<and> k < length (new_calls w w2) \<and>
         is_write (new_calls w w2 ! j) \<and> is_delete (new_calls w w2 ! k) \<longrightarrow> j < k"
    using writes_before_deletes [OF xs dd pp] by blast
qed

theorem writes_in_order_witness:
  "prefix (map (\<lambda>i. WriteResource i (ex_urn ''eu'' ''vpc'' ''v1'') ''v1'') [0..<2])
     (new_calls ex_world (snd (cw_write_resource ex_cw ''v1'' (PyStr ''eu'') ex_world))) \<and>
   list_all (is_subresource_write ex_interface (PyStr ''eu'') ''v1'')
     (drop 2 (new_calls ex_world (snd (cw_write_resource ex_cw ''v1'' (PyStr ''eu'') ex_world)))) \<and>
   is_write (new_calls ex_world
     (snd (write_resources_of_type_in_region ex_cw ''ec2'' (Some ''vpc'') None None ex_world)) ! 8) \<and>
   is_delete (new_calls ex_world
     (snd (write_resources_of_type_in_region ex_cw ''ec2'' (Some ''vpc'') None None ex_world)) ! 9) \<and>
   (8::nat) < 9"
proof -
  let ?new1 = "new_calls ex_world (snd (cw_write_resource ex_cw ''v1'' (PyStr ''eu'') ex_world))"
  let ?new2 = "new_calls ex_world
     (snd (write_resources_of_type_in_region ex_cw ''ec2'' (Some ''vpc'') None None ex_world))"
  have n: "length (storage_connectors ex_cw) = 2" "boto3_interface ex_cw = ex_interface"
    by (simp_all add: ex_cw_def memory_connectors_def)
  have u: "get_resource_urn (boto3_interface ex_cw) ''v1'' (PyStr ''eu'') =
      Inr (ex_urn ''eu'' ''vpc'' ''v1'')"
    by (simp add: ex_cw_def ex_interface_def)
  have new1: "?new1 =
     [WriteResource 0 (ex_urn ''eu'' ''vpc'' ''v1'') ''v1'',
      WriteResource 1 (ex_urn ''eu'' ''vpc'' ''v1'') ''v1'',
      WriteResource 0 (ex_urn ''eu'' ''vpc'' ''s1'') ''s1'',
      WriteResource 1 (ex_urn ''eu'' ''vpc'' ''s1'') ''s1'']"
    by (simp add: new_calls_def ex_write_v1) (simp add: ex_world_def)
  have new2: "?new2 = ex_vpc_calls"
    by (simp add: new_calls_def ex_vpc_pass) (simp add: ex_world_def)
  have short: "\<not> prefix ?new1 (map (\<lambda>i. WriteResource i (ex_urn ''eu'' ''vpc'' ''v1'') ''v1'') [0..<2])"
    by (simp add: new1 upt_rec)
  have w: "8 < length ?new2 \<and> 9 < length ?new2 \<and> is_write (?new2 ! 8) \<and> is_delete (?new2 ! 9)"
    by (simp add: new2 ex_vpc_calls_def)
  note inst = writes_in_order [where cw = ex_cw and r = "''v1''" and region = "PyStr ''eu''"
      and w = ex_world and u = "ex_urn ''eu'' ''vpc'' ''v1''" and s = "''ec2''"
      and t = "Some ''vpc''" and region_name = None and client_args = None]
  from inst [THEN conjunct1, rule_format, OF surjective_pairing u] short n
  have a: "prefix (map (\<lambda>i. WriteResource i (ex_urn ''eu'' ''vpc'' ''v1'') ''v1'') [0..<2]) ?new1 \<and>
      list_all (is_subresource_write ex_interface (PyStr ''eu'') ''v1'') (drop 2 ?new1)"
    by (simp add: list_all_iff)
  from inst [THEN conjunct2, rule_format, OF surjective_pairing] w
  have "(8::nat) < 9" by blast
  with a w show ?thesis by simp
qed

text \<open>
  Claim C8, on the in-memory connectors. Two passes of
  \<open>write_resources_of_type_in_region\<close> with the same arguments and the same provider,
  one after the other: the second has the outcome of the first, makes the same calls,
  and leaves on every connector the resource records the first one left; so the stored
  set of any scope is the same after the second pass as after the first.
\<close>

theorem pass_is_idempotent:
  assumes "storage_connectors cw = memory_connectors n"
    and "write_resources_of_type_in_region cw s t region_name client_args w = (res, w1)"
    and "write_resources_of_type_in_region cw s t region_name client_args w1 = (res', w2)"
  shows "res' = res \<and> new_calls w1 w2 = new_calls w w1 \<and>
    (\<forall>i. map_of (resources (heap w2 i)) = map_of (resources (heap w1 i)) \<and>
         set (stored_in_scope s' t' acct reg (heap w2 i)) =
         set (stored_in_scope s' t' acct reg (heap w1 i)))"
proof -
  let ?ca = "type_client_args cw region_name client_args"
  let ?p = "p_write_type (boto3_interface cw) n s t ?ca"
  from assms(2) type_pass_memory [OF assms(1), of s t region_name client_args w]
  have r1: "res = snd ?p" and c1: "calls w1 = calls w @ fst ?p"
    and h1: "heap w1 = (\<lambda>i. store_after i (fst ?p) (heap w i))"
    by (auto simp: Let_def)
  from assms(3) type_pass_memory [OF assms(1), of s t region_name client_args w1]
  have r2: "res' = snd ?p" and c2: "calls w2 = calls w1 @ fst ?p"
    and h2: "heap w2 = (\<lambda>i. store_after i (fst ?p) (heap w1 i))"
    by (auto simp: Let_def)
  obtain g ws ds urns where
    shape: "fst ?p = g @ ws @ ds"
    and g: "set g \<subseteq> {GetResourcesOfType s t ?ca}"
    and ws: "\<forall>c\<in>set ws. is_write c \<and> call_index c < n"
    and ds: "\<forall>c\<in>set ds. \<exists>i acct reg. c = DeleteResourceOfType i s t acct reg urns \<and> i < n"
    and keep: "ds \<noteq> [] \<longrightarrow> set urns = set (written_urns ws)"
    using type_pass_calls [of "boto3_interface cw" n s t ?ca] by blast
  have after: "store_after i (fst ?p) st = store_after i (ws @ ds) st" for i st
    by (simp add: shape store_after_gets [OF g])
  have m: "map_of (resources (heap w2 i)) = map_of (resources (heap w1 i))" for i
    unfolding h2 h1 after
    by (rule pass_twice_same_records) (use ws ds keep in auto)
  have "set (stored_in_scope s' t' acct reg (heap w2 i)) =
        set (stored_in_scope s' t' acct reg (heap w1 i))" for i
    by (simp add: stored_in_scope_dom m)
  with m r1 r2 c1 c2 show ?thesis by (simp add: new_calls_def)
qed

theorem pass_is_idempotent_witness:
  "fst (write_resources_of_type_in_region ex_cw ''ec2'' (Some ''vpc'') None None
     (snd (write_resources_of_type_in_region ex_cw ''ec2'' (Some ''vpc'') None None ex_world))) =
     Inr () \<and>
   set (stored_in_scope ''ec2'' (Some ''vpc'') ''111'' ''eu''
     (heap (snd (write_resources_of_type_in_region ex_cw ''ec2'' (Some ''vpc'') None None
        (snd (write_resources_of_type_in_region ex_cw ''ec2'' (Some ''vpc'') None None
           ex_world)))) 0)) =
     {ex_urn ''eu'' ''vpc'' ''v1'', ex_urn ''eu'' ''vpc'' ''s1'', ex_urn ''eu'' ''vpc'' ''v2''}"
proof -
  have 1: "storage_connectors ex_cw = memory_connectors 2" by (simp add: ex_cw_def)
  have "set (stored_in_scope ''ec2'' (Some ''vpc'') ''111'' ''eu''
     (heap (snd (write_resources_of_type_in_region ex_cw ''ec2'' (Some ''vpc'') None None
        ex_world)) 0)) =
     {ex_urn ''eu'' ''vpc'' ''v1'', ex_urn ''eu'' ''vpc'' ''s1'', ex_urn ''eu'' ''vpc'' ''v2''}"
    by (simp add: ex_vpc_heap) (simp add: stored_in_scope_def in_scope_def ex_urn_def)
  with pass_is_idempotent [OF 1 surjective_pairing surjective_pairing,
      of "''ec2''" "Some ''vpc''" None None ex_world "''ec2''" "Some ''vpc''" "''111''" "''eu''"]
  show ?thesis by (simp add: ex_vpc_pass)
qed

text \<open>
  Claim C10. When \<open>write_resources_of_type_in_region\<close> is given a non-empty
  \<open>client_args\<close>, the argument \<open>region_name\<close> makes no difference, and if the key
  \<open>region_name\<close> is missing the call raises \<open>KeyError\<close> with the world unchanged: nothing
  has been fetched or written. When \<open>client_args\<close> is absent or empty the call is the
  call with the dictionary that holds \<open>region_name\<close>, or the region of the session when
  \<open>region_name\<close> is absent or empty.
\<close>

theorem region_name_default:
  "(dict_truthy client_args \<longrightarrow>
      write_resources_of_type_in_region cw s t region_name client_args =
        write_resources_of_type_in_region cw s t region_name' client_args \<and>
      (''region_name'' \<notin> fst ` set (or_empty client_args) \<longrightarrow>
         write_resources_of_type_in_region cw s t region_name client_args w =
           (Inl (KeyError ''region_name''), w))) \<and>
   (\<not> dict_truthy client_args \<longrightarrow>
      write_resources_of_type_in_region cw s t region_name client_args =
        write_resources_of_type_in_region cw s t None
          (Some [(''region_name'', str_or region_name (boto3_session_region_name cw))]))"
proof -
  have "write_resources_of_type_in_region cw s t region_name client_args w =
          (Inl (KeyError ''region_name''), w)"
    if "dict_truthy client_args" "''region_name'' \<notin> fst ` set (or_empty client_args)"
  proof -
    from that(2) have "map_of (or_empty client_args) ''region_name'' = None"
      by (simp add: map_of_eq_None_iff)
    with that(1) have "getitem (type_client_args cw region_name client_args) ''region_name'' =
        Inl (KeyError ''region_name'')"
      by (simp add: type_client_args_def getitem_def)
    then show ?thesis
      by (simp add: write_resources_of_type_in_region_def Let_def) (simp add: liftM_def)
  qed
  then show ?thesis
    by (simp add: write_resources_of_type_in_region_def type_client_args_def)
qed

theorem region_name_default_witness:
  "write_resources_of_type_in_region ex_cw ''ec2'' (Some ''vpc'') (Some ''eu'')
     (Some [(''config'', PyObj 0)]) ex_world = (Inl (KeyError ''region_name''), ex_world) \<and>
   write_resources_of_type_in_region ex_cw ''ec2'' (Some ''vpc'') (Some ''eu'')
     (Some [(''config'', PyObj 0)]) =
   write_resources_of_type_in_region ex_cw ''ec2'' (Some ''vpc'') (Some ''us'')
     (Some [(''config'', PyObj 0)]) \<and>
   write_resources_of_type_in_region ex_cw ''ec2'' (Some ''vpc'') (Some ''us'') None =
   write_resources_of_type_in_region ex_cw ''ec2'' (Some ''vpc'') None
     (Some [(''region_name'', PyStr ''us'')]) \<and>
   write_resources_of_type_in_region ex_cw ''ec2'' (Some ''vpc'') None (Some []) =
   write_resources_of_type_in_region ex_cw ''ec2'' (Some ''vpc'') None
     (Some [(''region_name'', PyStr ''eu'')])"
proof -
  have a: "write_resources_of_type_in_region ex_cw ''ec2'' (Some ''vpc'') (Some ''eu'')
      (Some [(''config'', PyObj 0)]) ex_world = (Inl (KeyError ''region_name''), ex_world)"
    using region_name_default [where client_args = "Some [(''config'', PyObj 0)]"
        and cw = ex_cw and s = "''ec2''" and t = "Some ''vpc''"
        and region_name = "Some ''eu''" and region_name' = "Some ''eu''" and w = ex_world]
    by simp
  have b: "write_resources_of_type_in_region ex_cw ''ec2'' (Some ''vpc'') (Some ''eu'')
      (Some [(''config'', PyObj 0)]) =
    write_resources_of_type_in_region ex_cw ''ec2'' (Some ''vpc'') (Some ''us'')
      (Some [(''config'', PyObj 0)])"
    using region_name_default [where client_args = "Some [(''config'', PyObj 0)]"
        and cw = ex_cw and s = "''ec2''" and t = "Some ''vpc''"
        and region_name = "Some ''eu''" and region_name' = "Some ''us''" and w = ex_world]
    by simp
  have c: "write_resources_of_type_in_region ex_cw ''ec2'' (Some ''vpc'') (Some ''us'') None =
    write_resources_of_type_in_region ex_cw ''ec2'' (Some ''vpc'') None
      (Some [(''region_name'', PyStr ''us'')])"
    using region_name_default [where client_args = None and cw = ex_cw
        and s = "''ec2''" and t = "Some ''vpc''" and region_name = "Some ''us''"]
    by (simp add: str_or_def)
  have d: "write_resources_of_type_in_region ex_cw ''ec2'' (Some ''vpc'') None (Some []) =
    write_resources_of_type_in_region ex_cw ''ec2'' (Some ''vpc'') None
      (Some [(''region_name'', PyStr ''eu'')])"
    using region_name_default [where client_args = "Some []" and cw = ex_cw
        and s = "''ec2''" and t = "Some ''vpc''" and region_name = None]
    by (simp add: str_or_def ex_cw_def)
  from a b c d show ?thesis by blast
qed

end
